theory Spec2Isabelle
  imports Main
begin

section \<open>Data model (models/Snippet.js, models/User.js, middleware/auth.js)\<close>

text \<open>
  ObjectIds are compared through \<^verbatim>\<open>toString()\<close> everywhere in the routes, so an id is
  its string form (\<open>snippet_id\<close>, \<open>u_id\<close> and \<open>sh_id\<close> are the documents' \<^verbatim>\<open>_id\<close>).
  Dates are milliseconds since the epoch. The schema's \<^verbatim>\<open>createdAt\<close> and \<^verbatim>\<open>updatedAt\<close>
  are left out: they order the pages of a listing and decide nothing else.
\<close>

type_synonym oid = string

datatype visibility = Private | Organization | Public

datatype permission = View | Edit

datatype role = User | Admin

record user =
  u_id :: oid
  u_username :: string
  u_email :: string
  u_organization :: string
  u_role :: role
  u_isActive :: bool

text \<open>An entry of \<^verbatim>\<open>sharedWith\<close>: \<^verbatim>\<open>user\<close> is absent for a user not yet registered.\<close>

record share =
  sh_id :: oid
  sh_user :: "oid option"
  sh_email :: "string option"
  sh_permissions :: permission
  sh_sharedAt :: int
  sh_sharedBy :: "oid option"

text \<open>An entry of \<^verbatim>\<open>currentViewers\<close>.\<close>

record viewer =
  v_user :: oid
  v_lastSeen :: int
  v_socketId :: "string option"

record snippet =
  snippet_id :: oid
  title :: string
  content :: string
  language :: string
  description :: "string option"
  author :: oid
  organization :: string
  shareId :: string
  visibility :: visibility
  tags :: "string list"
  views :: int
  isActive :: bool
  sharedWith :: "share list"
  currentViewers :: "viewer list"

text \<open>\<^verbatim>\<open>req.user\<close> as the auth middleware builds it.\<close>

record req_user =
  userId :: oid
  user_organization :: string
  user_role :: role

text \<open>
  A handler answers with a JSON body (status 200) or with an error status. The 500 of the
  handlers' \<^verbatim>\<open>catch\<close> carries the exception's message, which is the engine's.
\<close>

datatype 'a response = Ok200 'a | Err403 string | Err404 string | Err500

section \<open>The collections\<close>

text \<open>
  The snippet collection is the list of its documents; \<^verbatim>\<open>Snippet.findOne(q)\<close> is the
  first document that matches, \<^verbatim>\<open>doc.save()\<close> replaces the document of the same
  \<^verbatim>\<open>_id\<close>. A handler takes the collection and returns it with its answer. Failures of
  the database itself are outside the model.
\<close>

definition findOne :: "(snippet \<Rightarrow> bool) \<Rightarrow> snippet list \<Rightarrow> snippet option" where
  "findOne q store = find q store"

definition save :: "snippet \<Rightarrow> snippet list \<Rightarrow> snippet list" where
  "save s store = map (\<lambda>x. if snippet_id x = snippet_id s then s else x) store"

text \<open>\<^verbatim>\<open>populate(path, 'username email')\<close>: the referenced user's display fields, or null.\<close>

record populated_user =
  p_id :: oid
  p_username :: string
  p_email :: "string option"

definition populate_username :: "user list \<Rightarrow> oid \<Rightarrow> populated_user option" where
  "populate_username users i =
     map_option (\<lambda>u. \<lparr>p_id = u_id u, p_username = u_username u, p_email = None\<rparr>)
       (find (\<lambda>u. u_id u = i) users)"

definition populate_username_email :: "user list \<Rightarrow> oid \<Rightarrow> populated_user option" where
  "populate_username_email users i =
     map_option (\<lambda>u. \<lparr>p_id = u_id u, p_username = u_username u, p_email = Some (u_email u)\<rparr>)
       (find (\<lambda>u. u_id u = i) users)"

section \<open>Presence: cleanupViewers\<close>

text \<open>
  \<^verbatim>\<open>fiveMinutesAgo = Date.now() - 5 * 60 * 1000\<close>; an entry stays when
  \<^verbatim>\<open>viewer.lastSeen > fiveMinutesAgo\<close>. The method saves the document.
\<close>

definition fiveMinutesAgo :: "int \<Rightarrow> int" where
  "fiveMinutesAgo now = now - 5 * 60 * 1000"

definition cleanupViewers :: "int \<Rightarrow> snippet \<Rightarrow> snippet" where
  "cleanupViewers now s =
     s\<lparr>currentViewers := filter (\<lambda>viewer. v_lastSeen viewer > fiveMinutesAgo now) (currentViewers s)\<rparr>"

text \<open>One element of the \<^verbatim>\<open>currentViewers\<close> array of an answer.\<close>

record viewer_json =
  vj_user :: "populated_user option"
  vj_lastSeen :: int
  vj_isOnline :: bool

definition viewer_view :: "user list \<Rightarrow> viewer \<Rightarrow> viewer_json" where
  "viewer_view users viewer =
     \<lparr>vj_user = populate_username_email users (v_user viewer),
      vj_lastSeen = v_lastSeen viewer, vj_isOnline = True\<rparr>"

section \<open>GET /:id\<close>

record sharing_info =
  si_permissions :: permission
  si_sharedAt :: int

record snippet_detail =
  sd_doc :: snippet
  sd_author :: populated_user
  sd_sharingInfo :: "sharing_info option"
  sd_currentViewers :: "viewer_json list"

text \<open>
  The author is populated before the check; a snippet whose author document is gone has
  \<^verbatim>\<open>snippet.author = null\<close>, and reading \<^verbatim>\<open>_id\<close> of it throws (500).

  The viewers are populated too before \<^verbatim>\<open>cleanupViewers\<close> saves. A viewer always names
  a user here (\<^verbatim>\<open>required: true\<close>), so the collection returned keeps each viewer's id;
  it is the saved collection when the users of the kept viewers exist, and says nothing
  of what is written for a viewer whose user document is gone. The answer shows such a
  viewer with \<open>vj_user = None\<close>.
\<close>

definition get_by_id ::
  "user list \<Rightarrow> int \<Rightarrow> req_user \<Rightarrow> oid \<Rightarrow> snippet list \<Rightarrow> snippet_detail response \<times> snippet list" where
  "get_by_id users now ru i store =
     (case findOne (\<lambda>s. snippet_id s = i \<and> isActive s) store of
        None \<Rightarrow> (Err404 ''Snippet not found'', store)
      | Some snippet \<Rightarrow>
          (case populate_username users (author snippet) of
             None \<Rightarrow> (Err500, store)
           | Some a \<Rightarrow>
               (let isAuthor = (p_id a = userId ru);
                    isSharedUser = list_ex (\<lambda>share. sh_user share = Some (userId ru)) (sharedWith snippet);
                    hasOrgAccess = (visibility snippet = Organization \<and>
                                    organization snippet = user_organization ru);
                    isPublic = (visibility snippet = Public)
                in if (\<not> isAuthor \<and> \<not> isSharedUser \<and> \<not> hasOrgAccess \<and> \<not> isPublic) \<and>
                      visibility snippet = Private
                   then (Err403 ''Access denied'', store)
                   else
                     (let cleaned = cleanupViewers now snippet;
                          sharingInfo =
                            (if isSharedUser
                             then map_option
                                    (\<lambda>e. \<lparr>si_permissions = sh_permissions e, si_sharedAt = sh_sharedAt e\<rparr>)
                                    (find (\<lambda>share. sh_user share = Some (userId ru)) (sharedWith cleaned))
                             else None)
                      in (Ok200 \<lparr>sd_doc = cleaned, sd_author = a, sd_sharingInfo = sharingInfo,
                                 sd_currentViewers = map (viewer_view users) (currentViewers cleaned)\<rparr>,
                          save cleaned store)))))"

section \<open>GET /share/:shareId\<close>

text \<open>
  \<^verbatim>\<open>res.json(snippet)\<close> after \<^verbatim>\<open>populate('author', 'username')\<close>: the document with the
  author's display fields (null when the author's document is gone).
\<close>

record snippet_json =
  sj_doc :: snippet
  sj_author :: "populated_user option"

text \<open>
  \<^verbatim>\<open>req.user\<close> is what the optionalAuth middleware left: absent for an anonymous
  request. The test \<^verbatim>\<open>!req.user || snippet.organization !== req.user.organization\<close> is
  written twice in the handler, for \<^verbatim>\<open>private\<close> and for \<^verbatim>\<open>organization\<close>.
\<close>

definition not_same_organization :: "req_user option \<Rightarrow> snippet \<Rightarrow> bool" where
  "not_same_organization ru snippet =
     (case ru of None \<Rightarrow> True | Some u \<Rightarrow> organization snippet \<noteq> user_organization u)"

definition org_only_message :: string where
  "org_only_message =
     ''Access denied. This snippet is only accessible to members of the same organization.''"

definition get_by_share_id ::
  "user list \<Rightarrow> req_user option \<Rightarrow> string \<Rightarrow> snippet list \<Rightarrow> snippet_json response \<times> snippet list" where
  "get_by_share_id users ru sid store =
     (case findOne (\<lambda>s. shareId s = sid \<and> isActive s) store of
        None \<Rightarrow> (Err404 ''Snippet not found'', store)
      | Some snippet \<Rightarrow>
          (let viewed = snippet\<lparr>views := views snippet + 1\<rparr>;
               answer = (Ok200 \<lparr>sj_doc = viewed, sj_author = populate_username users (author viewed)\<rparr>,
                         save viewed store)
           in if visibility snippet = Private
              then (if not_same_organization ru snippet then (Err403 org_only_message, store)
                    else answer)
              else if visibility snippet = Organization
              then (if not_same_organization ru snippet then (Err403 org_only_message, store)
                    else answer)
              else answer))"

section \<open>PUT /:id\<close>

text \<open>
  The request body, by the paths of the schema it may name (an absent key is \<open>None\<close>).
  \<^verbatim>\<open>Object.assign(snippet, req.body)\<close> sets every key the body has, through the
  schema's setters (\<^verbatim>\<open>trim: true\<close> on the title and on each tag).
\<close>

definition is_space :: "char \<Rightarrow> bool" where
  "is_space c = (c \<in> set [CHR 0x20, CHR 0x09, CHR 0x0A, CHR 0x0B, CHR 0x0C, CHR 0x0D])"

text \<open>\<^verbatim>\<open>String.prototype.trim\<close>, on ASCII white space.\<close>

definition trim :: "string \<Rightarrow> string" where
  "trim s = rev (dropWhile is_space (rev (dropWhile is_space s)))"

text \<open>\<^verbatim>\<open>String.prototype.toLowerCase\<close>, on ASCII letters.\<close>

definition to_lower :: "char \<Rightarrow> char" where
  "to_lower c =
     (case map_of (zip ''ABCDEFGHIJKLMNOPQRSTUVWXYZ'' ''abcdefghijklmnopqrstuvwxyz'') c of
        None \<Rightarrow> c | Some l \<Rightarrow> l)"

definition lowercase :: "string \<Rightarrow> string" where
  "lowercase s = map to_lower s"

record update_body =
  b_title :: "string option"
  b_content :: "string option"
  b_language :: "string option"
  b_description :: "string option"
  b_visibility :: "visibility option"
  b_tags :: "string list option"
  b_author :: "oid option"
  b_organization :: "string option"
  b_shareId :: "string option"
  b_views :: "int option"
  b_isActive :: "bool option"
  b_sharedWith :: "share list option"
  b_currentViewers :: "viewer list option"

definition assign :: "update_body \<Rightarrow> snippet \<Rightarrow> snippet" where
  "assign body s =
     s\<lparr>title := (case b_title body of None \<Rightarrow> title s | Some v \<Rightarrow> trim v),
       content := (case b_content body of None \<Rightarrow> content s | Some v \<Rightarrow> v),
       language := (case b_language body of None \<Rightarrow> language s | Some v \<Rightarrow> v),
       description := (case b_description body of None \<Rightarrow> description s | Some v \<Rightarrow> Some v),
       visibility := (case b_visibility body of None \<Rightarrow> visibility s | Some v \<Rightarrow> v),
       tags := (case b_tags body of None \<Rightarrow> tags s | Some v \<Rightarrow> map trim v),
       author := (case b_author body of None \<Rightarrow> author s | Some v \<Rightarrow> v),
       organization := (case b_organization body of None \<Rightarrow> organization s | Some v \<Rightarrow> v),
       shareId := (case b_shareId body of None \<Rightarrow> shareId s | Some v \<Rightarrow> v),
       views := (case b_views body of None \<Rightarrow> views s | Some v \<Rightarrow> v),
       isActive := (case b_isActive body of None \<Rightarrow> isActive s | Some v \<Rightarrow> v),
       sharedWith := (case b_sharedWith body of None \<Rightarrow> sharedWith s | Some v \<Rightarrow> v),
       currentViewers := (case b_currentViewers body of None \<Rightarrow> currentViewers s | Some v \<Rightarrow> v)\<rparr>"

text \<open>
  What \<^verbatim>\<open>save()\<close> rejects (the handler then answers 500): the schema's validators on
  the paths the body set (\<^verbatim>\<open>required\<close> on title, content and organization, which an
  empty string fails; \<^verbatim>\<open>maxlength\<close> on title, content and description), and the unique
  index on \<^verbatim>\<open>shareId\<close>.
\<close>

definition body_valid :: "update_body \<Rightarrow> bool" where
  "body_valid body =
     ((case b_title body of None \<Rightarrow> True | Some v \<Rightarrow> trim v \<noteq> [] \<and> length (trim v) \<le> 200) \<and>
      (case b_content body of None \<Rightarrow> True | Some v \<Rightarrow> v \<noteq> [] \<and> length v \<le> 100000) \<and>
      (case b_description body of None \<Rightarrow> True | Some v \<Rightarrow> length v \<le> 1000) \<and>
      (case b_organization body of None \<Rightarrow> True | Some v \<Rightarrow> v \<noteq> []))"

definition shareId_taken :: "snippet \<Rightarrow> snippet list \<Rightarrow> bool" where
  "shareId_taken s store =
     list_ex (\<lambda>x. snippet_id x \<noteq> snippet_id s \<and> shareId x = shareId s) store"

definition update ::
  "user list \<Rightarrow> req_user \<Rightarrow> oid \<Rightarrow> update_body \<Rightarrow> snippet list \<Rightarrow> snippet_json response \<times> snippet list" where
  "update users ru i body store =
     (case findOne (\<lambda>s. snippet_id s = i \<and> author s = userId ru \<and> isActive s) store of
        None \<Rightarrow> (Err404 ''Snippet not found'', store)
      | Some snippet \<Rightarrow>
          (let assigned = assign body snippet
           in if body_valid body \<and> \<not> shareId_taken assigned store
              then (Ok200 \<lparr>sj_doc = assigned, sj_author = populate_username users (author assigned)\<rparr>,
                    save assigned store)
              else (Err500, store)))"

section \<open>DELETE /:id\<close>

definition delete_snippet ::
  "req_user \<Rightarrow> oid \<Rightarrow> snippet list \<Rightarrow> string response \<times> snippet list" where
  "delete_snippet ru i store =
     (case findOne (\<lambda>s. snippet_id s = i \<and> author s = userId ru) store of
        None \<Rightarrow> (Err404 ''Snippet not found'', store)
      | Some snippet \<Rightarrow> (Ok200 ''Snippet deleted'', save (snippet\<lparr>isActive := False\<rparr>) store))"

section \<open>POST /:id/share and DELETE /:id/share/:shareEntryId\<close>

text \<open>The JSON values of an answer written as an object literal in the handler.\<close>

datatype json =
  JString string | JNumber int | JBool bool | JArray "json list" | JObject "(string \<times> json) list"

definition json_field :: "string \<Rightarrow> json \<Rightarrow> json option" where
  "json_field k j = (case j of JObject kvs \<Rightarrow> map_of kvs k | _ \<Rightarrow> None)"

definition json_keys :: "json \<Rightarrow> string list" where
  "json_keys j = (case j of JObject kvs \<Rightarrow> map fst kvs | _ \<Rightarrow> [])"

text \<open>
  The body of the request; \<^verbatim>\<open>permissions\<close> defaults to \<^verbatim>\<open>'view'\<close>. An absent list of
  emails or usernames is skipped like an empty one.
\<close>

record share_body =
  sb_emails :: "string list"
  sb_usernames :: "string list"
  sb_permissions :: "permission option"

text \<open>What the two loops of the handler change: the ledger and the two lists it reports.\<close>

record share_state =
  ledger :: "share list"
  sharedUsers :: "json list"
  notFoundUsers :: "json list"

text \<open>
  What is fixed during one request: the users, the ids the driver gives to pushed entries
  (from the ledger they are pushed onto), the time of \<^verbatim>\<open>sharedAt\<close>'s default, the
  permission and the requester.
\<close>

record share_env =
  se_users :: "user list"
  se_newId :: "share list \<Rightarrow> oid"
  se_now :: int
  se_permissions :: permission
  se_user :: req_user

text \<open>
  One turn of \<^verbatim>\<open>for (const email of emails)\<close>. \<^verbatim>\<open>User.findOne\<close> casts its filter through
  the user schema's setters: the email looked up is lower-cased (\<^verbatim>\<open>lowercase: true\<close>),
  while the ledger keeps \<^verbatim>\<open>email.trim()\<close> as it was typed.
\<close>

definition process_email :: "share_env \<Rightarrow> string \<Rightarrow> share_state \<Rightarrow> share_state" where
  "process_email env email st =
     (let user = find (\<lambda>u. u_email u = lowercase (trim email) \<and> u_isActive u) (se_users env);
          alreadyShared =
            list_ex (\<lambda>share.
                (case sh_user share of None \<Rightarrow> False
                 | Some su \<Rightarrow> (case user of None \<Rightarrow> False | Some u \<Rightarrow> su = u_id u)) \<or>
                sh_email share = Some (trim email))
              (ledger st);
          st1 =
            (if alreadyShared then st
             else st\<lparr>ledger := ledger st @
                         [\<lparr>sh_id = se_newId env (ledger st), sh_user = map_option u_id user,
                           sh_email = Some (trim email), sh_permissions = se_permissions env,
                           sh_sharedAt = se_now env, sh_sharedBy = Some (userId (se_user env))\<rparr>],
                     sharedUsers := sharedUsers st @
                         [JObject [(''email'', JString (trim email)), (''found'', JBool (user \<noteq> None))]]\<rparr>)
      in if user = None
         then st1\<lparr>notFoundUsers := notFoundUsers st1 @
                     [JObject [(''type'', JString ''email''), (''value'', JString (trim email))]]\<rparr>
         else st1)"

text \<open>
  One turn of \<^verbatim>\<open>for (const username of usernames)\<close>. The filter's organization goes
  through the user schema's \<^verbatim>\<open>trim: true\<close>.
\<close>

definition process_username :: "share_env \<Rightarrow> string \<Rightarrow> share_state \<Rightarrow> share_state" where
  "process_username env username st =
     (case find (\<lambda>u. u_username u = trim username \<and>
                      u_organization u = trim (user_organization (se_user env)) \<and> u_isActive u)
             (se_users env) of
        Some user \<Rightarrow>
          (let alreadyShared = list_ex (\<lambda>share. sh_user share = Some (u_id user)) (ledger st)
           in if alreadyShared then st
              else st\<lparr>ledger := ledger st @
                          [\<lparr>sh_id = se_newId env (ledger st), sh_user = Some (u_id user),
                            sh_email = Some (u_email user), sh_permissions = se_permissions env,
                            sh_sharedAt = se_now env, sh_sharedBy = Some (userId (se_user env))\<rparr>],
                      sharedUsers := sharedUsers st @
                          [JObject [(''username'', JString (trim username)),
                                    (''email'', JString (u_email user)), (''found'', JBool True)]]\<rparr>)
      | None \<Rightarrow>
          st\<lparr>notFoundUsers := notFoundUsers st @
                [JObject [(''type'', JString ''username''), (''value'', JString (trim username))]]\<rparr>)"

text \<open>The object of the handler's \<^verbatim>\<open>res.json\<close>, from what the loops left.\<close>

definition share_answer :: "share_state \<Rightarrow> json" where
  "share_answer st =
     JObject [(''message'', JString ''Snippet shared successfully''),
              (''sharedWith'', JArray (sharedUsers st)),
              (''notFound'', JArray (notFoundUsers st)),
              (''totalSharedUsers'', JNumber (int (length (ledger st))))]"

definition share_snippet ::
  "user list \<Rightarrow> (share list \<Rightarrow> oid) \<Rightarrow> int \<Rightarrow> req_user \<Rightarrow> oid \<Rightarrow> share_body \<Rightarrow> snippet list \<Rightarrow>
     json response \<times> snippet list" where
  "share_snippet users newId now ru i body store =
     (case findOne (\<lambda>s. snippet_id s = i \<and> author s = userId ru \<and> isActive s) store of
        None \<Rightarrow> (Err404 ''Snippet not found or access denied'', store)
      | Some snippet \<Rightarrow>
          (let env = \<lparr>se_users = users, se_newId = newId, se_now = now,
                      se_permissions = (case sb_permissions body of None \<Rightarrow> View | Some p \<Rightarrow> p),
                      se_user = ru\<rparr>;
               st0 = \<lparr>ledger = sharedWith snippet, sharedUsers = [], notFoundUsers = []\<rparr>;
               st1 = foldl (\<lambda>st email. process_email env email st) st0 (sb_emails body);
               st2 = foldl (\<lambda>st username. process_username env username st) st1 (sb_usernames body);
               shared = snippet\<lparr>sharedWith := ledger st2\<rparr>
           in (Ok200 (share_answer st2), save shared store)))"

definition unshare ::
  "req_user \<Rightarrow> oid \<Rightarrow> string \<Rightarrow> snippet list \<Rightarrow> string response \<times> snippet list" where
  "unshare ru i shareEntryId store =
     (case findOne (\<lambda>s. snippet_id s = i \<and> author s = userId ru \<and> isActive s) store of
        None \<Rightarrow> (Err404 ''Snippet not found or access denied'', store)
      | Some snippet \<Rightarrow>
          (Ok200 ''User removed from sharing list'',
           save (snippet\<lparr>sharedWith := filter (\<lambda>share. sh_id share \<noteq> shareEntryId) (sharedWith snippet)\<rparr>)
             store))"

text \<open>
  The test \<^verbatim>\<open>alreadyShared\<close> of the email loop, as a property of an email and a ledger.
\<close>

definition email_listed :: "user list \<Rightarrow> string \<Rightarrow> share list \<Rightarrow> bool" where
  "email_listed users email l =
     list_ex (\<lambda>share.
         (case sh_user share of None \<Rightarrow> False
          | Some su \<Rightarrow>
              (case find (\<lambda>u. u_email u = lowercase (trim email) \<and> u_isActive u) users of
                 None \<Rightarrow> False | Some u \<Rightarrow> su = u_id u)) \<or>
         sh_email share = Some (trim email)) l"

text \<open>The entries of a ledger that carry an email (as the handler stores it, trimmed).\<close>

definition entries_for :: "string \<Rightarrow> share list \<Rightarrow> share list" where
  "entries_for email l = filter (\<lambda>share. sh_email share = Some (trim email)) l"

section \<open>Presence: join-view, leave-view, viewers\<close>

record join_json =
  jj_message :: string
  jj_currentViewers :: "viewer_json list"

text \<open>
  The handler reads the clock twice: \<^verbatim>\<open>new Date()\<close> for the entry it pushes
  (\<open>joined\<close>) and \<^verbatim>\<open>Date.now()\<close> inside \<^verbatim>\<open>cleanupViewers\<close> (\<open>now\<close>).
\<close>

definition join_view ::
  "user list \<Rightarrow> int \<Rightarrow> int \<Rightarrow> req_user \<Rightarrow> oid \<Rightarrow> string option \<Rightarrow> snippet list \<Rightarrow>
     join_json response \<times> snippet list" where
  "join_view users joined now ru i socketId store =
     (case findOne (\<lambda>s. snippet_id s = i \<and> isActive s) store of
        None \<Rightarrow> (Err404 ''Snippet not found'', store)
      | Some snippet \<Rightarrow>
          (let isAuthor = (author snippet = userId ru);
               isSharedUser = list_ex (\<lambda>share. sh_user share = Some (userId ru)) (sharedWith snippet);
               hasOrgAccess = (visibility snippet = Organization \<and>
                               organization snippet = user_organization ru);
               isPublic = (visibility snippet = Public)
           in if \<not> isAuthor \<and> \<not> isSharedUser \<and> \<not> hasOrgAccess \<and> \<not> isPublic
              then (Err403 ''Access denied'', store)
              else
                (let removed = snippet\<lparr>currentViewers :=
                                 filter (\<lambda>viewer. v_user viewer \<noteq> userId ru) (currentViewers snippet)\<rparr>;
                     pushed = removed\<lparr>currentViewers := currentViewers removed @
                                 [\<lparr>v_user = userId ru, v_lastSeen = joined, v_socketId = socketId\<rparr>]\<rparr>;
                     cleaned = cleanupViewers now pushed
                 in (Ok200 \<lparr>jj_message = ''Joined snippet viewing'',
                            jj_currentViewers = map (viewer_view users) (currentViewers cleaned)\<rparr>,
                     save cleaned store))))"

definition leave_view ::
  "req_user \<Rightarrow> oid \<Rightarrow> snippet list \<Rightarrow> string response \<times> snippet list" where
  "leave_view ru i store =
     (case findOne (\<lambda>s. snippet_id s = i \<and> isActive s) store of
        None \<Rightarrow> (Err404 ''Snippet not found'', store)
      | Some snippet \<Rightarrow>
          (Ok200 ''Left snippet viewing'',
           save (snippet\<lparr>currentViewers :=
                   filter (\<lambda>viewer. v_user viewer \<noteq> userId ru) (currentViewers snippet)\<rparr>) store))"

text \<open>
  The viewers route populates the viewers before \<^verbatim>\<open>cleanupViewers\<close> saves, as GET /:id
  does: the collection returned is the saved one when the users of the kept viewers exist.
\<close>

definition get_viewers ::
  "user list \<Rightarrow> int \<Rightarrow> req_user \<Rightarrow> oid \<Rightarrow> snippet list \<Rightarrow> viewer_json list response \<times> snippet list" where
  "get_viewers users now ru i store =
     (case findOne (\<lambda>s. snippet_id s = i \<and> isActive s) store of
        None \<Rightarrow> (Err404 ''Snippet not found'', store)
      | Some snippet \<Rightarrow>
          (let cleaned = cleanupViewers now snippet
           in (Ok200 (map (viewer_view users) (currentViewers cleaned)), save cleaned store)))"

section \<open>GET /search\<close>

text \<open>
  The query string, by the keys the handler reads; \<^verbatim>\<open>page\<close> and \<^verbatim>\<open>limit\<close> only cut
  the answer's page out of the documents that match, and are not modelled: the answer
  here holds all of them, with their count (\<^verbatim>\<open>total\<close>).
\<close>

record search_params =
  sp_q :: "string option"
  sp_language :: "string option"
  sp_tags :: "string option"
  sp_author :: "string option"

record search_json =
  ss_snippets :: "snippet_json list"
  ss_total :: nat

text \<open>\<^verbatim>\<open>tags.split(',')\<close>.\<close>

fun split_comma :: "string \<Rightarrow> string list" where
  "split_comma [] = [[]]"
| "split_comma (c # cs) =
     (if c = CHR '','' then [] # split_comma cs
      else (case split_comma cs of [] \<Rightarrow> [[c]] | w # ws \<Rightarrow> (c # w) # ws))"

text \<open>The \<^verbatim>\<open>$or\<close> under the comment ``Visibility permissions''.\<close>

definition visibility_permissions :: "req_user \<Rightarrow> snippet \<Rightarrow> bool" where
  "visibility_permissions ru s =
     (visibility s = Public \<or> visibility s = Organization \<or>
      (visibility s = Private \<and> author s = userId ru))"

text \<open>The whole query: organization, \<^verbatim>\<open>isActive\<close>, the \<^verbatim>\<open>$and\<close> of the search conditions, the \<^verbatim>\<open>$or\<close>.\<close>

definition search_query :: "req_user \<Rightarrow> (snippet \<Rightarrow> bool) list \<Rightarrow> snippet \<Rightarrow> bool" where
  "search_query ru searchConditions s =
     (organization s = user_organization ru \<and> isActive s \<and>
      list_all (\<lambda>c. c s) searchConditions \<and> visibility_permissions ru s)"

text \<open>
  The regular expressions are the engine's: \<open>regex p\<close> is the case-insensitive matcher
  of the pattern \<open>p\<close>, or \<open>None\<close> when \<^verbatim>\<open>new RegExp(p, 'i')\<close> throws. A parameter
  is used when \<^verbatim>\<open>x && x.trim()\<close> holds, that is when it is given and not blank.
\<close>

definition text_condition ::
  "(string \<Rightarrow> (string \<Rightarrow> bool) option) \<Rightarrow> search_params \<Rightarrow> (snippet \<Rightarrow> bool) list option" where
  "text_condition regex sp =
     (case sp_q sp of
        None \<Rightarrow> Some []
      | Some q \<Rightarrow>
          if trim q = [] then Some []
          else map_option
                 (\<lambda>searchRegex.
                    [\<lambda>s. searchRegex (title s) \<or>
                          (case description s of None \<Rightarrow> False | Some d \<Rightarrow> searchRegex d) \<or>
                          searchRegex (content s)])
                 (regex (trim q)))"

definition language_condition :: "search_params \<Rightarrow> (snippet \<Rightarrow> bool) list" where
  "language_condition sp =
     (case sp_language sp of
        None \<Rightarrow> []
      | Some l \<Rightarrow> if l \<noteq> [] \<and> l \<noteq> ''all'' then [\<lambda>s. language s = l] else [])"

definition tags_condition :: "search_params \<Rightarrow> (snippet \<Rightarrow> bool) list" where
  "tags_condition sp =
     (case sp_tags sp of
        None \<Rightarrow> []
      | Some ts \<Rightarrow>
          if trim ts = [] then []
          else (let tagList = filter (\<lambda>tag. tag \<noteq> []) (map trim (split_comma ts))
                in if length tagList > 0 then [\<lambda>s. list_ex (\<lambda>tag. tag \<in> set tagList) (tags s)]
                   else []))"

text \<open>
  The author is looked up among the users of the requester's organization (the filter's
  organization trimmed by the user schema's setter; the regular expression is not cast).
\<close>

datatype author_filter = NoFilter | AuthorIs oid | NoSuchAuthor | BadPattern

definition author_condition ::
  "(string \<Rightarrow> (string \<Rightarrow> bool) option) \<Rightarrow> user list \<Rightarrow> req_user \<Rightarrow> search_params \<Rightarrow> author_filter" where
  "author_condition regex users ru sp =
     (case sp_author sp of
        None \<Rightarrow> NoFilter
      | Some a \<Rightarrow>
          if trim a = [] then NoFilter
          else (case regex (trim a) of
                  None \<Rightarrow> BadPattern
                | Some m \<Rightarrow>
                    (case find (\<lambda>u. m (u_username u) \<and> u_organization u = trim (user_organization ru)) users of
                       None \<Rightarrow> NoSuchAuthor
                     | Some authorUser \<Rightarrow> AuthorIs (u_id authorUser))))"

definition found_answer :: "user list \<Rightarrow> snippet list \<Rightarrow> search_json response" where
  "found_answer users found =
     Ok200 \<lparr>ss_snippets = map (\<lambda>s. \<lparr>sj_doc = s, sj_author = populate_username users (author s)\<rparr>) found,
            ss_total = length found\<rparr>"

definition search ::
  "(string \<Rightarrow> (string \<Rightarrow> bool) option) \<Rightarrow> user list \<Rightarrow> req_user \<Rightarrow> search_params \<Rightarrow> snippet list \<Rightarrow>
     search_json response" where
  "search regex users ru sp store =
     (case text_condition regex sp of
        None \<Rightarrow> Err500
      | Some textConditions \<Rightarrow>
          (let conditions = textConditions @ language_condition sp @ tags_condition sp
           in case author_condition regex users ru sp of
                BadPattern \<Rightarrow> Err500
              | NoSuchAuthor \<Rightarrow> Ok200 \<lparr>ss_snippets = [], ss_total = 0\<rparr>
              | AuthorIs a \<Rightarrow>
                  found_answer users (filter (search_query ru (conditions @ [\<lambda>s. author s = a])) store)
              | NoFilter \<Rightarrow> found_answer users (filter (search_query ru conditions) store)))"

text \<open>A request without search parameters.\<close>

definition no_filters :: search_params where
  "no_filters = \<lparr>sp_q = None, sp_language = None, sp_tags = None, sp_author = None\<rparr>"

section \<open>The decision rules of the specification (section 4.1)\<close>

text \<open>
  The specification's Access Control Evaluator, written from its eight rules in their
  order (first match wins), to compare the search filter with. \<open>via_share_link\<close> tells
  the share-id path from the direct-by-id path (rule 7); a requester is \<open>None\<close> when
  anonymous. A grant names the requester directly when its user is the requester.
\<close>

datatype operation = Read | Update | Delete | ManageSharing | JoinPresence

datatype decision = Allow | Deny string

definition spec_grant :: "snippet \<Rightarrow> req_user option \<Rightarrow> share option" where
  "spec_grant s r =
     (case r of None \<Rightarrow> None
      | Some u \<Rightarrow> find (\<lambda>g. sh_user g = Some (userId u)) (sharedWith s))"

definition spec_same_organization :: "snippet \<Rightarrow> req_user option \<Rightarrow> bool" where
  "spec_same_organization s r =
     (case r of None \<Rightarrow> False | Some u \<Rightarrow> user_organization u = organization s)"

definition spec_decide :: "bool \<Rightarrow> snippet \<Rightarrow> req_user option \<Rightarrow> operation \<Rightarrow> decision" where
  "spec_decide via_share_link s r op =
     (if \<not> isActive s then Deny ''not_found''
      else if (case r of None \<Rightarrow> False | Some u \<Rightarrow> userId u = author s) then Allow
      else if op = ManageSharing \<or> op = Delete then Deny ''forbidden''
      else if (case spec_grant s r of None \<Rightarrow> False
               | Some g \<Rightarrow> op = Read \<or> op = JoinPresence \<or> (op = Update \<and> sh_permissions g = Edit))
           then Allow
      else if visibility s = Public \<and> (op = Read \<or> op = JoinPresence) then Allow
      else if visibility s = Organization \<and> spec_same_organization s r \<and>
              (op = Read \<or> op = JoinPresence) then Allow
      else if visibility s = Private \<and> via_share_link \<and> spec_same_organization s r \<and> op = Read
           then Allow
      else Deny ''forbidden'')"

text \<open>Rule 4.1 evaluated per record over the requester's organization, for reading by id.\<close>

definition spec_readable :: "req_user \<Rightarrow> snippet list \<Rightarrow> snippet list" where
  "spec_readable ru store =
     filter (\<lambda>s. organization s = user_organization ru \<and>
                 spec_decide False s (Some ru) Read = Allow) store"

text \<open>The same with the share grants of each record left out of account.\<close>

definition spec_readable_without_grants :: "req_user \<Rightarrow> snippet list \<Rightarrow> snippet list" where
  "spec_readable_without_grants ru store =
     filter (\<lambda>s. organization s = user_organization ru \<and>
                 spec_decide False (s\<lparr>sharedWith := []\<rparr>) (Some ru) Read = Allow) store"

section \<open>Example data\<close>

definition alice :: user where
  "alice = \<lparr>u_id = ''u1'', u_username = ''alice'', u_email = ''alice@acme.com'',
            u_organization = ''acme'', u_role = User, u_isActive = True\<rparr>"

definition bob :: user where
  "bob = \<lparr>u_id = ''u2'', u_username = ''bob'', u_email = ''bob@globex.com'',
          u_organization = ''globex'', u_role = User, u_isActive = True\<rparr>"

definition carol :: user where
  "carol = \<lparr>u_id = ''u3'', u_username = ''carol'', u_email = ''carol@acme.com'',
            u_organization = ''acme'', u_role = User, u_isActive = True\<rparr>"

text \<open>The \<^verbatim>\<open>req.user\<close> that the auth middleware builds for a user.\<close>

definition req_of :: "user \<Rightarrow> req_user" where
  "req_of u = \<lparr>userId = u_id u, user_organization = u_organization u, user_role = u_role u\<rparr>"

definition snip :: "visibility \<Rightarrow> snippet" where
  "snip v = \<lparr>snippet_id = ''s1'', title = ''hello'', content = ''print(1)'', language = ''python'',
             description = None, author = ''u1'', organization = ''acme'', shareId = ''k1'',
             visibility = v, tags = [], views = 0, isActive = True, sharedWith = [],
             currentViewers = []\<rparr>"

text \<open>The snippet with two viewers, Bob last seen 400 s and Carol 1 s before time 1000000.\<close>

definition watched :: snippet where
  "watched = (snip Private)\<lparr>currentViewers :=
     [\<lparr>v_user = ''u2'', v_lastSeen = 600000, v_socketId = None\<rparr>,
      \<lparr>v_user = ''u3'', v_lastSeen = 999000, v_socketId = None\<rparr>]\<rparr>"

text \<open>The private snippet shared with Carol, permission \<^verbatim>\<open>edit\<close>.\<close>

definition shared_with_carol :: snippet where
  "shared_with_carol = (snip Private)\<lparr>sharedWith :=
     [\<lparr>sh_id = ''g1'', sh_user = Some ''u3'', sh_email = Some ''carol@acme.com'',
       sh_permissions = Edit, sh_sharedAt = 1000, sh_sharedBy = Some ''u1''\<rparr>]\<rparr>"

definition bob_email_twice :: share_body where
  "bob_email_twice = \<lparr>sb_emails = ['' bob@globex.com''], sb_usernames = [], sb_permissions = Some Edit\<rparr>"

definition grant_bob :: share where
  "grant_bob = \<lparr>sh_id = ''g1'', sh_user = Some ''u2'', sh_email = Some ''bob@globex.com'',
                sh_permissions = Edit, sh_sharedAt = 1000, sh_sharedBy = Some ''u1''\<rparr>"

text \<open>The snippet with a pending grant for Carol's email, and a request naming her twice.\<close>

definition pending_carol :: snippet where
  "pending_carol = (snip Private)\<lparr>sharedWith :=
     [\<lparr>sh_id = ''g0'', sh_user = None, sh_email = Some ''carol@acme.com'',
       sh_permissions = View, sh_sharedAt = 500, sh_sharedBy = Some ''u1''\<rparr>]\<rparr>"

definition carol_both_ways :: share_body where
  "carol_both_ways = \<lparr>sb_emails = [''carol@acme.com''], sb_usernames = [''carol''], sb_permissions = None\<rparr>"

definition same_id :: "share list \<Rightarrow> oid" where
  "same_id l = ''g1''"

definition no_regex :: "string \<Rightarrow> (string \<Rightarrow> bool) option" where
  "no_regex p = None"

definition empty_body :: update_body where
  "empty_body = \<lparr>b_title = None, b_content = None, b_language = None, b_description = None,
      b_visibility = None, b_tags = None, b_author = None, b_organization = None,
      b_shareId = None, b_views = None, b_isActive = None, b_sharedWith = None,
      b_currentViewers = None\<rparr>"

section \<open>Lookups and saves\<close>

text \<open>
  \<^verbatim>\<open>_id\<close> is the collection's key and \<^verbatim>\<open>shareId\<close> has a unique index: a key that no two
  documents share finds its document, or nothing when the rest of the query fails on it.
\<close>

lemma find_unique:
  "distinct (map f store) \<Longrightarrow> s \<in> set store \<Longrightarrow> P s \<Longrightarrow>
   find (\<lambda>x. f x = f s \<and> P x) store = Some s"
proof (induction store)
  case Nil
  then show ?case by simp
next
  case (Cons a store)
  show ?case
  proof (cases "a = s")
    case True
    with Cons.prems show ?thesis by simp
  next
    case False
    with Cons.prems have "s \<in> set store" and "f a \<noteq> f s" by auto
    with Cons show ?thesis by simp
  qed
qed

lemma find_unique_none:
  "distinct (map f store) \<Longrightarrow> s \<in> set store \<Longrightarrow> \<not> P s \<Longrightarrow>
   find (\<lambda>x. f x = f s \<and> P x) store = None"
proof -
  assume d: "distinct (map f store)" and m: "s \<in> set store" and n: "\<not> P s"
  have "\<And>x. x \<in> set store \<Longrightarrow> f x = f s \<Longrightarrow> x = s"
    using d m by (meson distinct_map inj_onD)
  then have "\<not> (\<exists>x \<in> set store. f x = f s \<and> P x)" using n by blast
  then show ?thesis by (simp add: find_None_iff)
qed

lemma find_member: "find P xs = Some x \<Longrightarrow> x \<in> set xs"
  by (induction xs) (auto split: if_splits)

lemma save_unchanged:
  "distinct (map snippet_id store) \<Longrightarrow> s \<in> set store \<Longrightarrow> save s store = store"
proof -
  assume d: "distinct (map snippet_id store)" and m: "s \<in> set store"
  have "\<And>x. x \<in> set store \<Longrightarrow> snippet_id x = snippet_id s \<Longrightarrow> x = s"
    using d m by (meson distinct_map inj_onD)
  then have "map (\<lambda>x. if snippet_id x = snippet_id s then s else x) store = map (\<lambda>x. x) store"
    by (intro map_cong) auto
  then show ?thesis by (simp add: save_def)
qed

lemma find_save:
  "find (\<lambda>x. snippet_id x = i \<and> P x) store = Some s \<Longrightarrow> snippet_id s' = i \<Longrightarrow> P s' \<Longrightarrow>
   find (\<lambda>x. snippet_id x = i \<and> P x) (save s' store) = Some s'"
  by (induction store) (auto simp: save_def split: if_splits)

lemma save_save: "save s (save s store) = save s store"
  by (simp add: save_def)

section \<open>Soft-deleted snippets\<close>

text \<open>
  Every handler that looks the snippet up with \<^verbatim>\<open>isActive: true\<close> answers 404 on a
  soft-deleted one and leaves the collection as it is.
\<close>

lemma inactive_not_found:
  assumes "distinct (map snippet_id store)" and "distinct (map shareId store)"
    and "s \<in> set store" and "\<not> isActive s"
  shows "get_by_id users now ru (snippet_id s) store = (Err404 ''Snippet not found'', store)"
    and "get_by_share_id users anyone (shareId s) store = (Err404 ''Snippet not found'', store)"
    and "update users ru (snippet_id s) body store = (Err404 ''Snippet not found'', store)"
    and "share_snippet users newId now ru (snippet_id s) sbody store =
           (Err404 ''Snippet not found or access denied'', store)"
    and "unshare ru (snippet_id s) shareEntryId store =
           (Err404 ''Snippet not found or access denied'', store)"
    and "join_view users joined now ru (snippet_id s) socketId store = (Err404 ''Snippet not found'', store)"
    and "leave_view ru (snippet_id s) store = (Err404 ''Snippet not found'', store)"
    and "get_viewers users now ru (snippet_id s) store = (Err404 ''Snippet not found'', store)"
proof -
  have a: "findOne (\<lambda>x. snippet_id x = snippet_id s \<and> isActive x) store = None"
    unfolding findOne_def using assms(1,3,4) by (rule find_unique_none)
  have b: "findOne (\<lambda>x. snippet_id x = snippet_id s \<and> author x = userId ru \<and> isActive x) store = None"
    unfolding findOne_def using assms(1,3) by (rule find_unique_none) (simp add: assms(4))
  have c: "findOne (\<lambda>x. shareId x = shareId s \<and> isActive x) store = None"
    unfolding findOne_def using assms(2,3,4) by (rule find_unique_none)
  show "get_by_id users now ru (snippet_id s) store = (Err404 ''Snippet not found'', store)"
    by (simp add: get_by_id_def a)
  show "get_by_share_id users anyone (shareId s) store = (Err404 ''Snippet not found'', store)"
    by (simp add: get_by_share_id_def c)
  show "update users ru (snippet_id s) body store = (Err404 ''Snippet not found'', store)"
    by (simp add: update_def b)
  show "share_snippet users newId now ru (snippet_id s) sbody store =
           (Err404 ''Snippet not found or access denied'', store)"
    by (simp add: share_snippet_def b)
  show "unshare ru (snippet_id s) shareEntryId store =
           (Err404 ''Snippet not found or access denied'', store)"
    by (simp add: unshare_def b)
  show "join_view users joined now ru (snippet_id s) socketId store = (Err404 ''Snippet not found'', store)"
    by (simp add: join_view_def a)
  show "leave_view ru (snippet_id s) store = (Err404 ''Snippet not found'', store)"
    by (simp add: leave_view_def a)
  show "get_viewers users now ru (snippet_id s) store = (Err404 ''Snippet not found'', store)"
    by (simp add: get_viewers_def a)
qed

section \<open>The ledger under the email loop\<close>

text \<open>
  A turn of the loop for an email that the test finds leaves the ledger and the list of
  new grants; for an email that it does not find, it appends one entry and one report.
\<close>

lemma process_email_listed:
  "email_listed (se_users env) x (ledger st) \<Longrightarrow>
   ledger (process_email env x st) = ledger st \<and>
   sharedUsers (process_email env x st) = sharedUsers st"
  by (simp add: process_email_def email_listed_def Let_def)

lemma process_email_unlisted:
  "\<not> email_listed (se_users env) x (ledger st) \<Longrightarrow>
   (\<exists>g. sh_email g = Some (trim x) \<and> ledger (process_email env x st) = ledger st @ [g]) \<and>
   (\<exists>j. json_field ''email'' j = Some (JString (trim x)) \<and>
        sharedUsers (process_email env x st) = sharedUsers st @ [j])"
  by (simp add: process_email_def email_listed_def Let_def json_field_def)

lemma email_listed_trim:
  assumes "trim x = trim e"
  shows "email_listed users x l = email_listed users e l"
  unfolding email_listed_def assms by (rule refl)

lemma email_listed_append: "email_listed users e l \<Longrightarrow> email_listed users e (l @ m)"
  by (simp add: email_listed_def)

lemma email_listed_entry: "sh_email g = Some (trim e) \<Longrightarrow> email_listed users e (l @ [g])"
  by (simp add: email_listed_def)

lemma unlisted_no_entries: "\<not> email_listed users e l \<Longrightarrow> entries_for e l = []"
  by (auto simp: email_listed_def entries_for_def list_ex_iff filter_empty_conv)

lemma email_listed_after: "email_listed (se_users env) x (ledger (process_email env x st))"
proof (cases "email_listed (se_users env) x (ledger st)")
  case True
  with process_email_listed [OF True] show ?thesis by simp
next
  case False
  from process_email_unlisted [OF False] obtain g where "sh_email g = Some (trim x)"
    and "ledger (process_email env x st) = ledger st @ [g]" by blast
  then show ?thesis by (simp add: email_listed_entry)
qed

lemma process_email_keeps_listed:
  assumes "email_listed users e (ledger st)"
  shows "email_listed users e (ledger (process_email env x st))"
proof (cases "email_listed (se_users env) x (ledger st)")
  case True
  with process_email_listed [OF True] assms show ?thesis by simp
next
  case False
  from process_email_unlisted [OF False] obtain g where
    "ledger (process_email env x st) = ledger st @ [g]" by blast
  with assms show ?thesis by (simp add: email_listed_append)
qed

text \<open>A turn never gives an email a second entry.\<close>

lemma process_email_entries:
  "length (entries_for e (ledger (process_email env x st))) \<le> max 1 (length (entries_for e (ledger st)))"
proof (cases "email_listed (se_users env) x (ledger st)")
  case True
  with process_email_listed [OF True] show ?thesis by simp
next
  case False
  from process_email_unlisted [OF False] obtain g where g: "sh_email g = Some (trim x)"
    and l: "ledger (process_email env x st) = ledger st @ [g]" by blast
  show ?thesis
  proof (cases "trim x = trim e")
    case True
    from False have "entries_for x (ledger st) = []" by (rule unlisted_no_entries)
    with True have "entries_for e (ledger st) = []" by (simp add: entries_for_def)
    with l g True show ?thesis by (simp add: entries_for_def)
  next
    case False
    with l g show ?thesis by (simp add: entries_for_def)
  qed
qed

text \<open>Nor does the whole loop, whatever the emails.\<close>

lemma foldl_process_email_entries:
  "length (entries_for e (ledger (foldl (\<lambda>st email. process_email env email st) st emails)))
     \<le> max 1 (length (entries_for e (ledger st)))"
proof (induction emails arbitrary: st)
  case Nil
  then show ?case by simp
next
  case (Cons x xs)
  have "length (entries_for e (ledger (foldl (\<lambda>st email. process_email env email st) (process_email env x st) xs)))
          \<le> max 1 (length (entries_for e (ledger (process_email env x st))))"
    by (rule Cons.IH)
  also have "\<dots> \<le> max 1 (length (entries_for e (ledger st)))"
    using process_email_entries [of e env x st] by simp
  finally show ?case by simp
qed

text \<open>Once the test finds an email it finds it for the rest of the loop, and after it.\<close>

lemma foldl_keeps_listed:
  "email_listed users e (ledger st) \<Longrightarrow>
   email_listed users e (ledger (foldl (\<lambda>st email. process_email env email st) st emails))"
  by (induction emails arbitrary: st) (simp_all add: process_email_keeps_listed)

lemma foldl_lists:
  "e \<in> set emails \<Longrightarrow>
   email_listed (se_users env) e (ledger (foldl (\<lambda>st email. process_email env email st) st emails))"
proof (induction emails arbitrary: st)
  case Nil
  then show ?case by simp
next
  case (Cons x xs)
  show ?case
  proof (cases "e = x")
    case True
    have "email_listed (se_users env) e (ledger (process_email env x st))"
      unfolding True by (rule email_listed_after)
    then show ?thesis by (simp add: foldl_keeps_listed)
  next
    case False
    with Cons.prems have "e \<in> set xs" by simp
    then show ?thesis by (simp add: Cons.IH)
  qed
qed

text \<open>An email that the test finds gains no entry and is not reported as newly shared.\<close>

lemma process_email_no_gain:
  assumes "email_listed (se_users env) e (ledger st)"
  shows "entries_for e (ledger (process_email env x st)) = entries_for e (ledger st) \<and>
         (\<forall>j \<in> set (sharedUsers (process_email env x st)).
            j \<in> set (sharedUsers st) \<or> json_field ''email'' j \<noteq> Some (JString (trim e)))"
proof (cases "email_listed (se_users env) x (ledger st)")
  case True
  with process_email_listed [OF True] show ?thesis by simp
next
  case False
  with assms have ne: "trim x \<noteq> trim e"
    using email_listed_trim [of x e "se_users env" "ledger st"] by auto
  from process_email_unlisted [OF False] obtain g j where g: "sh_email g = Some (trim x)"
    and l: "ledger (process_email env x st) = ledger st @ [g]"
    and j: "json_field ''email'' j = Some (JString (trim x))"
    and u: "sharedUsers (process_email env x st) = sharedUsers st @ [j]" by blast
  from l g ne have "entries_for e (ledger (process_email env x st)) = entries_for e (ledger st)"
    by (simp add: entries_for_def)
  moreover from u j ne have "\<forall>j \<in> set (sharedUsers (process_email env x st)).
      j \<in> set (sharedUsers st) \<or> json_field ''email'' j \<noteq> Some (JString (trim e))"
    by auto
  ultimately show ?thesis ..
qed

lemma foldl_no_gain:
  "email_listed (se_users env) e (ledger st) \<Longrightarrow>
   entries_for e (ledger (foldl (\<lambda>st email. process_email env email st) st emails)) =
     entries_for e (ledger st) \<and>
   (\<forall>j \<in> set (sharedUsers (foldl (\<lambda>st email. process_email env email st) st emails)).
      j \<in> set (sharedUsers st) \<or> json_field ''email'' j \<noteq> Some (JString (trim e)))"
proof (induction emails arbitrary: st)
  case Nil
  then show ?case by simp
next
  case (Cons x xs)
  let ?st = "process_email env x st"
  have k: "email_listed (se_users env) e (ledger ?st)"
    using Cons.prems by (rule process_email_keeps_listed)
  from Cons.IH [OF k] process_email_no_gain [OF Cons.prems, of x]
  show ?case by (simp del: foldl_Cons add: foldl_Cons [of _ st x xs]) blast
qed

text \<open>
  The username loop tests \<^verbatim>\<open>share.user\<close> only: with a pending entry for Carol's email in
  the ledger, a request that names her by email and by username leaves two entries for
  the email. The statements on sharing twice below are about requests without usernames.
\<close>

lemma username_loop_second_entry:
  "snd (share_snippet [alice, bob, carol] same_id 1000 (req_of alice) ''s1'' carol_both_ways [pending_carol]) =
     [(snip Private)\<lparr>sharedWith :=
        [\<lparr>sh_id = ''g0'', sh_user = None, sh_email = Some ''carol@acme.com'',
          sh_permissions = View, sh_sharedAt = 500, sh_sharedBy = Some ''u1''\<rparr>,
         \<lparr>sh_id = ''g1'', sh_user = Some ''u3'', sh_email = Some ''carol@acme.com'',
          sh_permissions = View, sh_sharedAt = 1000, sh_sharedBy = Some ''u1''\<rparr>]\<rparr>]"
  by (simp add: share_snippet_def findOne_def save_def process_email_def process_username_def Let_def
      trim_def is_space_def lowercase_def to_lower_def carol_both_ways_def pending_carol_def
      same_id_def snip_def req_of_def alice_def bob_def carol_def)

lemma save_over: "snippet_id a = snippet_id b \<Longrightarrow> save b (save a store) = save b store"
  by (simp add: save_def)

lemma trim_bob: "trim '' bob@globex.com'' = ''bob@globex.com''"
  by (simp add: trim_def is_space_def)

lemma lowercase_bob: "lowercase ''bob@globex.com'' = ''bob@globex.com''"
  by (simp add: lowercase_def to_lower_def)

section \<open>The search filter and the decision rules\<close>

lemma visibility_filter_is_decision:
  "search_query ru conds s =
     (list_all (\<lambda>c. c s) conds \<and> organization s = user_organization ru \<and>
      spec_decide False (s\<lparr>sharedWith := []\<rparr>) (Some ru) Read = Allow)"
  by (cases "visibility s")
    (auto simp: search_query_def visibility_permissions_def spec_decide_def spec_grant_def
      spec_same_organization_def)

lemma stale_view_absent:
  assumes "v_lastSeen e \<le> fiveMinutesAgo now"
  shows "viewer_view users e \<notin> set (map (viewer_view users) (currentViewers (cleanupViewers now s)))"
proof
  assume "viewer_view users e \<in> set (map (viewer_view users) (currentViewers (cleanupViewers now s)))"
  then obtain v where v: "v \<in> set (currentViewers (cleanupViewers now s))"
    and eq: "viewer_view users v = viewer_view users e" by auto
  from v have "v_lastSeen v > fiveMinutesAgo now" by (simp add: cleanupViewers_def)
  moreover from eq have "v_lastSeen v = v_lastSeen e" by (simp add: viewer_view_def)
  ultimately show False using assms by simp
qed

section \<open>Claims\<close>

text \<open>
  C1. An active snippet of visibility \<^verbatim>\<open>organization\<close>, read by id by a user who is not
  the author, has no grant and is of another organization: the claim asks for 403. The
  handler answers 403 only inside \<^verbatim>\<open>if (snippet.visibility === 'private')\<close>, so here it
  answers 200 with the document. Bob (of globex) reads Alice's snippet (of acme).
\<close>

theorem get_by_id_other_org_reads_organization_snippet:
  "get_by_id [alice, bob] 1000 (req_of bob) ''s1'' [snip Organization] =
     (Ok200 \<lparr>sd_doc = snip Organization,
             sd_author = \<lparr>p_id = ''u1'', p_username = ''alice'', p_email = None\<rparr>,
             sd_sharingInfo = None, sd_currentViewers = []\<rparr>,
      [snip Organization])"
  by (simp add: get_by_id_def findOne_def save_def populate_username_def cleanupViewers_def Let_def
      alice_def bob_def req_of_def snip_def)

text \<open>
  C2. An update by the owner is to change the six fields title, content, language,
  description, visibility and tags only. \<^verbatim>\<open>Object.assign(snippet, req.body)\<close> copies
  every key of the body: Alice's update with the keys \<^verbatim>\<open>shareId\<close>, \<^verbatim>\<open>views\<close>,
  \<^verbatim>\<open>isActive\<close>, \<^verbatim>\<open>author\<close> and \<^verbatim>\<open>organization\<close> is answered 200 and stores all five.
\<close>

theorem update_overwrites_protected_fields:
  "update [alice, bob] (req_of alice) ''s1''
     (empty_body\<lparr>b_shareId := Some ''chosen'', b_views := Some 1000000, b_isActive := Some False,
                 b_author := Some ''u2'', b_organization := Some ''globex''\<rparr>)
     [snip Private] =
   (Ok200 \<lparr>sj_doc = (snip Private)\<lparr>author := ''u2'', organization := ''globex'', shareId := ''chosen'',
                                      views := 1000000, isActive := False\<rparr>,
           sj_author = Some \<lparr>p_id = ''u2'', p_username = ''bob'', p_email = None\<rparr>\<rparr>,
    [(snip Private)\<lparr>author := ''u2'', organization := ''globex'', shareId := ''chosen'',
                    views := 1000000, isActive := False\<rparr>])"
  by (simp add: update_def findOne_def save_def assign_def body_valid_def shareId_taken_def
      populate_username_def empty_body_def snip_def req_of_def alice_def bob_def Let_def)

text \<open>
  C3, as the handler has it. The update looks the snippet up with
  \<^verbatim>\<open>author: req.user.userId\<close>: a requester who is not the author is answered 404 and
  nothing is changed, whatever the ledger holds, a grant of permission \<^verbatim>\<open>edit\<close>
  included. Only the author can update.
\<close>

theorem update_owner_only:
  assumes "distinct (map snippet_id store)" and "s \<in> set store" and "author s \<noteq> userId ru"
  shows "update users ru (snippet_id s) body store = (Err404 ''Snippet not found'', store)"
proof -
  have "findOne (\<lambda>x. snippet_id x = snippet_id s \<and> author x = userId ru \<and> isActive x) store = None"
    unfolding findOne_def using assms(1,2) by (rule find_unique_none) (simp add: assms)
  then show ?thesis by (simp add: update_def)
qed

theorem update_owner_only_witness:
  "list_ex (\<lambda>g. sh_user g = Some (userId (req_of carol)) \<and> sh_permissions g = Edit)
     (sharedWith shared_with_carol) \<and>
   update [alice, bob, carol] (req_of carol) ''s1'' (empty_body\<lparr>b_content := Some ''print(2)''\<rparr>)
     [shared_with_carol] =
   (Err404 ''Snippet not found'', [shared_with_carol])"
proof -
  have h: "distinct (map snippet_id [shared_with_carol])" "shared_with_carol \<in> set [shared_with_carol]"
    "author shared_with_carol \<noteq> userId (req_of carol)"
    by (simp_all add: shared_with_carol_def snip_def req_of_def carol_def)
  have i: "snippet_id shared_with_carol = ''s1''"
    and g: "list_ex (\<lambda>g. sh_user g = Some (userId (req_of carol)) \<and> sh_permissions g = Edit)
              (sharedWith shared_with_carol)"
    by (simp_all add: shared_with_carol_def snip_def req_of_def carol_def)
  from update_owner_only [OF h, of "[alice, bob, carol]" "empty_body\<lparr>b_content := Some ''print(2)''\<rparr>"] g
  show ?thesis by (simp add: i)
qed

text \<open>
  C3 as stated fails: Carol holds a grant of permission \<^verbatim>\<open>edit\<close> on Alice's active
  snippet, and her update of the title is answered 404.
\<close>

theorem edit_grant_does_not_allow_update:
  "update [alice, bob, carol] (req_of carol) ''s1'' (empty_body\<lparr>b_title := Some ''changed''\<rparr>)
     [shared_with_carol] =
   (Err404 ''Snippet not found'', [shared_with_carol])"
  by (simp add: update_def findOne_def shared_with_carol_def snip_def req_of_def carol_def)

text \<open>
  C4. Every operation on a soft-deleted snippet is to end in not-found, a repeated delete
  by the owner included. The delete handler alone looks the snippet up without
  \<^verbatim>\<open>isActive: true\<close> (the others are \<open>inactive_not_found\<close>): Alice's second delete of
  her snippet is answered 200 again.
\<close>

theorem repeated_delete_succeeds:
  "delete_snippet (req_of alice) ''s1''
     (snd (delete_snippet (req_of alice) ''s1'' [snip Private])) =
   (Ok200 ''Snippet deleted'', [(snip Private)\<lparr>isActive := False\<rparr>])"
  by (simp add: delete_snippet_def findOne_def save_def snip_def req_of_def alice_def)

text \<open>
  C5. An active private snippet, asked for by its share id: a requester of the snippet's
  organization gets the document (its view count one higher, which is saved); a
  requester of another organization and an anonymous one get 403, and nothing changes.
\<close>

theorem share_link_private:
  assumes "distinct (map shareId store)" and "s \<in> set store" and "isActive s"
    and "visibility s = Private"
    and "user_organization same = organization s"
    and "user_organization other \<noteq> organization s"
  shows "get_by_share_id users (Some same) (shareId s) store =
           (Ok200 \<lparr>sj_doc = s\<lparr>views := views s + 1\<rparr>, sj_author = populate_username users (author s)\<rparr>,
            save (s\<lparr>views := views s + 1\<rparr>) store) \<and>
         get_by_share_id users (Some other) (shareId s) store = (Err403 org_only_message, store) \<and>
         get_by_share_id users None (shareId s) store = (Err403 org_only_message, store)"
proof -
  have f: "findOne (\<lambda>x. shareId x = shareId s \<and> isActive x) store = Some s"
    unfolding findOne_def using assms(1-3) by (rule find_unique)
  show ?thesis
    using assms(4-6) by (simp add: get_by_share_id_def f not_same_organization_def Let_def)
qed

theorem share_link_private_witness:
  "get_by_share_id [alice, bob, carol] (Some (req_of carol)) ''k1'' [snip Private] =
     (Ok200 \<lparr>sj_doc = (snip Private)\<lparr>views := 1\<rparr>,
             sj_author = Some \<lparr>p_id = ''u1'', p_username = ''alice'', p_email = None\<rparr>\<rparr>,
      [(snip Private)\<lparr>views := 1\<rparr>]) \<and>
   get_by_share_id [alice, bob, carol] (Some (req_of bob)) ''k1'' [snip Private] =
     (Err403 org_only_message, [snip Private]) \<and>
   get_by_share_id [alice, bob, carol] None ''k1'' [snip Private] =
     (Err403 org_only_message, [snip Private])"
proof -
  have "distinct (map shareId [snip Private])" and "snip Private \<in> set [snip Private]"
    and "isActive (snip Private)" and "visibility (snip Private) = Private"
    and "user_organization (req_of carol) = organization (snip Private)"
    and "user_organization (req_of bob) \<noteq> organization (snip Private)"
    by (simp_all add: snip_def req_of_def carol_def bob_def)
  from share_link_private [OF this, of "[alice, bob, carol]"] show ?thesis
    by (simp add: snip_def alice_def populate_username_def save_def)
qed

text \<open>
  C6, as the handler has it. The owner shares an active snippet twice, each time with
  the email among the request's emails and without usernames, the same users being
  registered. Both requests are answered 200. The first leaves the ledger with at most
  one entry for the email, unless it already held more; the second adds no entry for it
  and does not report it under \<^verbatim>\<open>sharedWith\<close>. The answer has the keys \<^verbatim>\<open>message\<close>,
  \<^verbatim>\<open>sharedWith\<close>, \<^verbatim>\<open>notFound\<close> and \<^verbatim>\<open>totalSharedUsers\<close>, and no \<^verbatim>\<open>alreadyShared\<close>.
\<close>

theorem share_same_email_twice:
  assumes "distinct (map snippet_id store)" and "s \<in> set store" and "isActive s"
    and "author s = userId ru"
    and "e \<in> set (sb_emails b1)" and "sb_usernames b1 = []"
    and "e \<in> set (sb_emails b2)" and "sb_usernames b2 = []"
  shows "\<exists>st1 st2.
           share_snippet users newId1 now1 ru (snippet_id s) b1 store =
             (Ok200 (share_answer st1), save (s\<lparr>sharedWith := ledger st1\<rparr>) store) \<and>
           share_snippet users newId2 now2 ru (snippet_id s) b2 (save (s\<lparr>sharedWith := ledger st1\<rparr>) store) =
             (Ok200 (share_answer st2), save (s\<lparr>sharedWith := ledger st2\<rparr>) store) \<and>
           length (entries_for e (ledger st1)) \<le> max 1 (length (entries_for e (sharedWith s))) \<and>
           entries_for e (ledger st2) = entries_for e (ledger st1) \<and>
           (\<forall>j \<in> set (sharedUsers st2). json_field ''email'' j \<noteq> Some (JString (trim e))) \<and>
           json_keys (share_answer st2) = [''message'', ''sharedWith'', ''notFound'', ''totalSharedUsers''] \<and>
           json_field ''alreadyShared'' (share_answer st2) = None"
proof -
  define env1 where "env1 = \<lparr>se_users = users, se_newId = newId1, se_now = now1,
      se_permissions = (case sb_permissions b1 of None \<Rightarrow> View | Some p \<Rightarrow> p), se_user = ru\<rparr>"
  define env2 where "env2 = \<lparr>se_users = users, se_newId = newId2, se_now = now2,
      se_permissions = (case sb_permissions b2 of None \<Rightarrow> View | Some p \<Rightarrow> p), se_user = ru\<rparr>"
  define st1 where "st1 = foldl (\<lambda>st email. process_email env1 email st)
      \<lparr>ledger = sharedWith s, sharedUsers = [], notFoundUsers = []\<rparr> (sb_emails b1)"
  define s1 where "s1 = s\<lparr>sharedWith := ledger st1\<rparr>"
  define st2 where "st2 = foldl (\<lambda>st email. process_email env2 email st)
      \<lparr>ledger = ledger st1, sharedUsers = [], notFoundUsers = []\<rparr> (sb_emails b2)"
  let ?q = "\<lambda>x. snippet_id x = snippet_id s \<and> author x = userId ru \<and> isActive x"
  have f: "find ?q store = Some s"
    using assms(1,2) by (rule find_unique) (simp add: assms)
  have r1: "share_snippet users newId1 now1 ru (snippet_id s) b1 store =
              (Ok200 (share_answer st1), save s1 store)"
    by (simp add: share_snippet_def findOne_def f Let_def assms(6) st1_def s1_def env1_def)
  have f1: "find ?q (save s1 store) = Some s1"
    using f by (rule find_save) (simp_all add: s1_def assms)
  have s2: "s1\<lparr>sharedWith := ledger st2\<rparr> = s\<lparr>sharedWith := ledger st2\<rparr>"
    by (simp add: s1_def)
  have over: "save (s\<lparr>sharedWith := ledger st2\<rparr>) (save s1 store) = save (s\<lparr>sharedWith := ledger st2\<rparr>) store"
    by (rule save_over) (simp add: s1_def)
  have st2': "foldl (\<lambda>st email. process_email env2 email st)
      \<lparr>ledger = sharedWith s1, sharedUsers = [], notFoundUsers = []\<rparr> (sb_emails b2) = st2"
    by (simp add: st2_def s1_def)
  have r2: "share_snippet users newId2 now2 ru (snippet_id s) b2 (save s1 store) =
              (Ok200 (share_answer st2), save (s\<lparr>sharedWith := ledger st2\<rparr>) store)"
    by (simp add: share_snippet_def findOne_def f1 Let_def assms(8) env2_def [symmetric] st2' s2 over)
  have c: "length (entries_for e (ledger st1)) \<le> max 1 (length (entries_for e (sharedWith s)))"
    using foldl_process_email_entries
      [of e env1 "\<lparr>ledger = sharedWith s, sharedUsers = [], notFoundUsers = []\<rparr>" "sb_emails b1"]
    by (simp add: st1_def)
  have "email_listed (se_users env1) e (ledger st1)"
    unfolding st1_def using assms(5) by (rule foldl_lists)
  then have "email_listed (se_users env2) e
      (ledger \<lparr>ledger = ledger st1, sharedUsers = [], notFoundUsers = []\<rparr>)"
    by (simp add: env1_def env2_def)
  from foldl_no_gain [OF this, of "sb_emails b2"]
  have g: "entries_for e (ledger st2) = entries_for e (ledger st1)"
    and n: "\<forall>j \<in> set (sharedUsers st2). json_field ''email'' j \<noteq> Some (JString (trim e))"
    by (simp_all add: st2_def)
  have k: "json_keys (share_answer st2) = [''message'', ''sharedWith'', ''notFound'', ''totalSharedUsers'']"
    by (simp add: json_keys_def share_answer_def)
  have a: "json_field ''alreadyShared'' (share_answer st2) = None"
    by (simp add: json_field_def share_answer_def)
  from r1 r2 c g n k a show ?thesis unfolding s1_def by blast
qed

theorem share_same_email_twice_witness:
  "'' bob@globex.com'' \<in> set (sb_emails bob_email_twice) \<and> sb_usernames bob_email_twice = [] \<and>
   (\<exists>st1 st2.
     share_snippet [alice, bob] same_id 1000 (req_of alice) ''s1'' bob_email_twice [snip Private] =
       (Ok200 (share_answer st1), save ((snip Private)\<lparr>sharedWith := ledger st1\<rparr>) [snip Private]) \<and>
     share_snippet [alice, bob] same_id 2000 (req_of alice) ''s1'' bob_email_twice
         (save ((snip Private)\<lparr>sharedWith := ledger st1\<rparr>) [snip Private]) =
       (Ok200 (share_answer st2), save ((snip Private)\<lparr>sharedWith := ledger st2\<rparr>) [snip Private]) \<and>
     length (entries_for '' bob@globex.com'' (ledger st1)) \<le> 1 \<and>
     entries_for '' bob@globex.com'' (ledger st2) = entries_for '' bob@globex.com'' (ledger st1) \<and>
     (\<forall>j \<in> set (sharedUsers st2). json_field ''email'' j \<noteq> Some (JString ''bob@globex.com'')) \<and>
     json_keys (share_answer st2) = [''message'', ''sharedWith'', ''notFound'', ''totalSharedUsers''] \<and>
     json_field ''alreadyShared'' (share_answer st2) = None)"
proof -
  have h: "distinct (map snippet_id [snip Private])" "snip Private \<in> set [snip Private]"
    "isActive (snip Private)" "author (snip Private) = userId (req_of alice)"
    "'' bob@globex.com'' \<in> set (sb_emails bob_email_twice)" "sb_usernames bob_email_twice = []"
    "'' bob@globex.com'' \<in> set (sb_emails bob_email_twice)" "sb_usernames bob_email_twice = []"
    by (simp_all add: snip_def req_of_def alice_def bob_email_twice_def)
  have i: "snippet_id (snip Private) = ''s1''" "entries_for '' bob@globex.com'' (sharedWith (snip Private)) = []"
    by (simp_all add: snip_def entries_for_def)
  from share_same_email_twice [OF h, of "[alice, bob]" same_id 1000 same_id 2000] h(5,6)
  show ?thesis by (simp add: i trim_bob)
qed

text \<open>
  C6 as stated fails: Alice shares her snippet with Bob's email twice. The second answer
  has the keys \<^verbatim>\<open>message\<close>, \<^verbatim>\<open>sharedWith\<close>, \<^verbatim>\<open>notFound\<close> and \<^verbatim>\<open>totalSharedUsers\<close>, and
  names the email under none of them.
\<close>

theorem share_twice_no_alreadyShared:
  "share_snippet [alice, bob] same_id 2000 (req_of alice) ''s1'' bob_email_twice
     (snd (share_snippet [alice, bob] same_id 1000 (req_of alice) ''s1'' bob_email_twice [snip Private])) =
   (Ok200 (JObject [(''message'', JString ''Snippet shared successfully''),
                    (''sharedWith'', JArray []),
                    (''notFound'', JArray []),
                    (''totalSharedUsers'', JNumber 1)]),
    [(snip Private)\<lparr>sharedWith := [grant_bob]\<rparr>])"
  by (simp add: share_snippet_def share_answer_def findOne_def save_def process_email_def Let_def
      trim_bob lowercase_bob bob_email_twice_def grant_bob_def same_id_def snip_def req_of_def
      alice_def bob_def)

text \<open>
  C7, as the handler has it. The owner revokes, on an active snippet, a grant id that
  the ledger does not hold: the ledger (the whole collection) is unchanged and the
  answer is 200 with the message of a removal, not an error status.
\<close>

theorem unshare_missing_grant:
  assumes "distinct (map snippet_id store)" and "s \<in> set store" and "isActive s"
    and "author s = userId ru" and "shareEntryId \<notin> sh_id ` set (sharedWith s)"
  shows "unshare ru (snippet_id s) shareEntryId store = (Ok200 ''User removed from sharing list'', store)"
proof -
  have f: "findOne (\<lambda>x. snippet_id x = snippet_id s \<and> author x = userId ru \<and> isActive x) store = Some s"
    unfolding findOne_def using assms(1,2) by (rule find_unique) (simp add: assms)
  have "filter (\<lambda>share. sh_id share \<noteq> shareEntryId) (sharedWith s) = sharedWith s"
    using assms(5) by (auto simp: filter_id_conv)
  then have "s\<lparr>sharedWith := filter (\<lambda>share. sh_id share \<noteq> shareEntryId) (sharedWith s)\<rparr> = s"
    by simp
  then show ?thesis
    by (simp add: unshare_def f save_unchanged [OF assms(1,2)])
qed

theorem unshare_missing_grant_witness:
  "''g9'' \<notin> sh_id ` set (sharedWith shared_with_carol) \<and>
   unshare (req_of alice) ''s1'' ''g9'' [shared_with_carol] =
     (Ok200 ''User removed from sharing list'', [shared_with_carol])"
proof -
  have h: "distinct (map snippet_id [shared_with_carol])" "shared_with_carol \<in> set [shared_with_carol]"
    "isActive shared_with_carol" "author shared_with_carol = userId (req_of alice)"
    "''g9'' \<notin> sh_id ` set (sharedWith shared_with_carol)"
    by (simp_all add: shared_with_carol_def snip_def req_of_def alice_def)
  have i: "snippet_id shared_with_carol = ''s1''" by (simp add: shared_with_carol_def snip_def)
  from unshare_missing_grant [OF h] h(5) show ?thesis by (simp add: i)
qed

text \<open>
  C7 as stated fails: Alice revokes the grant id \<^verbatim>\<open>g9\<close>, which the ledger of her
  snippet does not hold, and the answer is the success message, not 404.
\<close>

theorem unshare_missing_grant_reports_success:
  "fst (unshare (req_of alice) ''s1'' ''g9'' [snip Private]) = Ok200 ''User removed from sharing list''"
  by (simp add: unshare_def findOne_def snip_def req_of_def alice_def)

text \<open>
  C8, as the handler has it. The documents the search query matches are those of the
  requester's organization that rule 4.1 lets the requester read by id when the share
  grants of each record are left out of account (and that meet the search conditions);
  without search parameters the answer holds exactly these.
\<close>

theorem search_filter_is_decision_without_grants:
  "filter (search_query ru conds) store =
     filter (\<lambda>s. list_all (\<lambda>c. c s) conds) (spec_readable_without_grants ru store) \<and>
   search regex users ru no_filters store = found_answer users (spec_readable_without_grants ru store)"
proof -
  have a: "filter (search_query ru conds) store =
     filter (\<lambda>s. list_all (\<lambda>c. c s) conds) (spec_readable_without_grants ru store)" for conds
    by (auto simp: spec_readable_without_grants_def visibility_filter_is_decision intro: filter_cong)
  have "search regex users ru no_filters store = found_answer users (filter (search_query ru []) store)"
    by (simp add: search_def text_condition_def language_condition_def tags_condition_def
        author_condition_def no_filters_def)
  with a [of "[]"] a [of conds] show ?thesis by simp
qed

text \<open>
  C8 as stated fails: Alice's private snippet is shared with Carol, of the same
  organization. Rule 4 of 4.1 lets Carol read it; her search does not return it.
\<close>

theorem search_leaves_out_granted_snippet:
  "search no_regex [alice, bob, carol] (req_of carol) no_filters [shared_with_carol] =
     Ok200 \<lparr>ss_snippets = [], ss_total = 0\<rparr> \<and>
   spec_readable (req_of carol) [shared_with_carol] = [shared_with_carol]"
  by (simp add: search_def text_condition_def language_condition_def tags_condition_def
      author_condition_def found_answer_def search_query_def visibility_permissions_def
      no_filters_def spec_readable_def spec_decide_def spec_grant_def
      shared_with_carol_def snip_def req_of_def carol_def)

text \<open>
  C9. A presence entry of an active snippet last seen more than five minutes before the
  call is not in the list that the viewers route returns, nor in the list that join-view
  returns; join-view returns a list unless it denies the requester (403).
\<close>

theorem stale_viewer_absent:
  assumes "distinct (map snippet_id store)" and "s \<in> set store" and "isActive s"
    and "e \<in> set (currentViewers s)" and "v_lastSeen e < now - 5 * 60 * 1000"
    and "fst (join_view users joined now ru (snippet_id s) socketId store) \<noteq> Err403 ''Access denied''"
  shows "(\<exists>vs st. get_viewers users now ru' (snippet_id s) store = (Ok200 vs, st) \<and>
                  viewer_view users e \<notin> set vs) \<and>
         (\<exists>body st. join_view users joined now ru (snippet_id s) socketId store = (Ok200 body, st) \<and>
                    viewer_view users e \<notin> set (jj_currentViewers body))"
proof -
  have f: "findOne (\<lambda>x. snippet_id x = snippet_id s \<and> isActive x) store = Some s"
    unfolding findOne_def using assms(1-3) by (rule find_unique)
  have stale: "v_lastSeen e \<le> fiveMinutesAgo now"
    using assms(5) by (simp add: fiveMinutesAgo_def)
  have "get_viewers users now ru' (snippet_id s) store =
          (Ok200 (map (viewer_view users) (currentViewers (cleanupViewers now s))),
           save (cleanupViewers now s) store)"
    by (simp add: get_viewers_def f Let_def)
  then have a: "\<exists>vs st. get_viewers users now ru' (snippet_id s) store = (Ok200 vs, st) \<and>
                  viewer_view users e \<notin> set vs"
    using stale_view_absent [OF stale] by blast
  have b: "\<exists>body st. join_view users joined now ru (snippet_id s) socketId store = (Ok200 body, st) \<and>
                    viewer_view users e \<notin> set (jj_currentViewers body)"
    using assms(6) stale_view_absent [OF stale]
    by (simp add: join_view_def f Let_def split: if_splits)
  from a b show ?thesis ..
qed

theorem stale_viewer_absent_witness:
  "\<lparr>v_user = ''u2'', v_lastSeen = 600000, v_socketId = None\<rparr> \<in> set (currentViewers watched) \<and>
   (600000 :: int) < 1000000 - 5 * 60 * 1000 \<and>
   (\<exists>vs st. get_viewers [alice, bob, carol] 1000000 (req_of bob) ''s1'' [watched] = (Ok200 vs, st) \<and>
      viewer_view [alice, bob, carol] \<lparr>v_user = ''u2'', v_lastSeen = 600000, v_socketId = None\<rparr> \<notin> set vs) \<and>
   (\<exists>body st. join_view [alice, bob, carol] 999990 1000000 (req_of alice) ''s1'' None [watched] =
        (Ok200 body, st) \<and>
      viewer_view [alice, bob, carol] \<lparr>v_user = ''u2'', v_lastSeen = 600000, v_socketId = None\<rparr>
        \<notin> set (jj_currentViewers body))"
proof -
  let ?e = "\<lparr>v_user = ''u2'', v_lastSeen = 600000, v_socketId = None\<rparr>"
  have h: "distinct (map snippet_id [watched])" "watched \<in> set [watched]" "isActive watched"
    "?e \<in> set (currentViewers watched)" "v_lastSeen ?e < 1000000 - 5 * 60 * 1000"
    "fst (join_view [alice, bob, carol] 999990 1000000 (req_of alice) (snippet_id watched) None [watched])
       \<noteq> Err403 ''Access denied''"
    by (simp_all add: watched_def snip_def join_view_def findOne_def Let_def req_of_def alice_def)
  have i: "snippet_id watched = ''s1''" by (simp add: watched_def snip_def)
  from stale_viewer_absent [OF h, of "req_of bob"] h(4) show ?thesis
    by (simp add: i)
qed

text \<open>
  C10. The viewers route answers any authenticated requester on any active snippet with
  the presence list pruned of the entries older than five minutes, each with its
  viewer's display fields; the requester, the visibility, the ledger and the
  organization are not looked at.
\<close>

theorem viewers_without_access_check:
  assumes "distinct (map snippet_id store)" and "s \<in> set store" and "isActive s"
  shows "fst (get_viewers users now ru (snippet_id s) store) =
           Ok200 (map (viewer_view users)
                    (filter (\<lambda>viewer. v_lastSeen viewer > now - 300000) (currentViewers s)))"
proof -
  have f: "findOne (\<lambda>x. snippet_id x = snippet_id s \<and> isActive x) store = Some s"
    unfolding findOne_def using assms by (rule find_unique)
  show ?thesis
    by (simp add: get_viewers_def f Let_def cleanupViewers_def fiveMinutesAgo_def)
qed

text \<open>Bob, of another organization and without a grant, asks for the viewers of Alice's private snippet.\<close>

theorem viewers_without_access_check_witness:
  "author watched \<noteq> userId (req_of bob) \<and> sharedWith watched = [] \<and> visibility watched = Private \<and>
   organization watched \<noteq> user_organization (req_of bob) \<and>
   fst (get_viewers [alice, bob, carol] 1000000 (req_of bob) ''s1'' [watched]) =
     Ok200 [\<lparr>vj_user = Some \<lparr>p_id = ''u3'', p_username = ''carol'', p_email = Some ''carol@acme.com''\<rparr>,
             vj_lastSeen = 999000, vj_isOnline = True\<rparr>]"
proof -
  have "distinct (map snippet_id [watched])" and "watched \<in> set [watched]" and "isActive watched"
    by (simp_all add: watched_def snip_def)
  from viewers_without_access_check [OF this, of "[alice, bob, carol]" 1000000 "req_of bob"]
  show ?thesis
    by (simp add: watched_def snip_def alice_def bob_def carol_def req_of_def viewer_view_def
        populate_username_email_def)
qed

end
